theory Spec2Isabelle
  imports Main
begin

section \<open>Common vocabulary of the two services\<close>

text \<open>
  The order service (\<^verbatim>\<open>src/unnamed/part_000\<close>) and the payment service (second half of
  \<^verbatim>\<open>src/services/notification-service/server.js\<close>) are Express handlers over a document
  store. Each handler is embedded as a function from the service state to a reply and the
  next state.

  \<^item> Status values are the strings the handlers compare and store.
  \<^item> Amounts, prices and quantities are JavaScript numbers. They are kept abstract: a type
    \<open>'n\<close> of which only \<open>0\<close>, \<open>+\<close> and \<open>*\<close> are used, and no law of exact arithmetic.
  \<^item> A reply is \<open>Inr\<close> of the document sent with a 2xx status, or \<open>Inl\<close> of the error.
  \<^item> \<open>new Date()\<close> is a parameter \<open>now\<close>; a generated document id is a parameter; the
    outcome of an outgoing HTTP request is a parameter of type \<open>string option\<close>:
    \<open>None\<close> when the request is answered, \<open>Some msg\<close> when its promise rejects with
    \<open>err.message = msg\<close>.
  \<^item> Reads and writes of the store succeed, except that inserting a document under an
    \<open>_id\<close> already present is refused, as the collection's unique index does.
  \<^item> \<^verbatim>\<open>document.save()\<close> validates the document against its schema (\<^verbatim>\<open>required\<close> and
    \<^verbatim>\<open>enum\<close>) and throws when it fails; \<^verbatim>\<open>findByIdAndUpdate\<close> is called without
    \<^verbatim>\<open>runValidators\<close> and stores what it is given. The wording of a validation message is
    the library's, not the source's, and no statement below depends on it. The save in
    the confirming branch of the payment callback and the saves of the timer and of the
    refund write enum values to documents that were valid when created; their
    validation is not repeated.
  \<^item> Ids are the ids of stored documents, 24 hexadecimal digits. A request whose id is
    not of that form is answered 400 by the cast of the id, before any handler code of
    interest runs; such requests are not part of the model.
\<close>

datatype error = Http400 string | Http404 string

definition duplicate_key_message :: string where
  "duplicate_key_message = ''E11000 duplicate key error''"

text \<open>The errors of a failed validation, joined into one message as the library does.\<close>

fun join_errors :: "string list \<Rightarrow> string" where
  "join_errors [] = []"
| "join_errors [e] = e"
| "join_errors (e # es) = e @ '', '' @ join_errors es"

definition required_error :: "string \<Rightarrow> string" where
  "required_error path = path @ '': Path `'' @ path @ ''` is required.''"

definition enum_error :: "string \<Rightarrow> string \<Rightarrow> string" where
  "enum_error path v =
     path @ '': `'' @ v @ ''` is not a valid enum value for path `'' @ path @ ''`.''"

text \<open>\<^verbatim>\<open>s.slice(-6)\<close>: the last six characters, the whole string when it is shorter.\<close>

definition slice_last6 :: "string \<Rightarrow> string" where
  "slice_last6 s = drop (length s - 6) s"

section \<open>Order service: data\<close>

text \<open>One element of \<^verbatim>\<open>OrderSchema.items\<close>.\<close>

record 'n item =
  productId :: string
  name :: string
  quantity :: 'n
  price :: 'n

text \<open>\<^verbatim>\<open>OrderSchema\<close>; \<open>order_id\<close> is the document's \<^verbatim>\<open>_id\<close>.\<close>

record 'n order =
  order_id :: string
  userId :: string
  items :: "'n item list"
  totalAmount :: 'n
  status :: string
  paymentStatus :: string
  deliveryAddress :: "string option"
  specialInstructions :: "string option"
  createdAt :: nat
  updatedAt :: nat

text \<open>The part of a product document that the create handler reads from the catalog's answer.\<close>

record 'n product =
  product_id :: string
  product_name :: string
  product_price :: 'n
  available :: bool

text \<open>
  \<^verbatim>\<open>axios.get(PRODUCT_SERVICE_URL/api/products/:id)\<close>: \<open>Inr\<close> of the product, or \<open>Inl\<close> of
  the message of the error thrown (404, 500 or no answer).
\<close>

type_synonym 'n catalog = "string \<Rightarrow> string + 'n product"

text \<open>The body of \<^verbatim>\<open>POST /api/orders\<close>.\<close>

record 'n request_item =
  req_productId :: string
  req_quantity :: 'n

record 'n order_request =
  req_userId :: string
  req_items :: "'n request_item list"
  req_deliveryAddress :: "string option"
  req_specialInstructions :: "string option"

text \<open>The requests the order service sends to the payment and notification services.\<close>

datatype 'n call =
    PaymentTrigger (trigger_orderId: string) (trigger_amount: 'n) (trigger_userId: string)
  | Notify (notify_userId: string) (notify_message: string) (notify_type: string)
      (notify_orderId: string)

text \<open>
  The state of the order service: the \<^verbatim>\<open>orders\<close> collection, the requests sent so far
  (oldest first) and the lines written with \<^verbatim>\<open>console.error\<close>.
\<close>

record 'n order_service =
  orders :: "string \<rightharpoonup> 'n order"
  outbox :: "'n call list"
  console :: "string list"

type_synonym 'n order_reply = "(error + 'n order) \<times> 'n order_service"

section \<open>Order service: handlers\<close>

text \<open>
  \<^verbatim>\<open>axios.post(...).catch(err => console.error(label, err.message))\<close>: the request is sent
  and not awaited; a rejection writes one line to the console and nothing else.
\<close>

definition fire_and_forget ::
  "'n call \<Rightarrow> string \<Rightarrow> string option \<Rightarrow> 'n order_service \<Rightarrow> 'n order_service" where
  "fire_and_forget c label outcome s =
     s\<lparr>outbox := outbox s @ [c],
       console := (case outcome of
                     None \<Rightarrow> console s
                   | Some msg \<Rightarrow> console s @ [label @ '' '' @ msg])\<rparr>"

text \<open>
  The \<^verbatim>\<open>for (const item of items)\<close> loop of the create handler, with its two accumulators
  \<^verbatim>\<open>totalAmount\<close> and \<^verbatim>\<open>orderItems\<close>. \<open>Inl (lines, msg)\<close> is an early return with a 400
  reply \<open>msg\<close> after writing \<open>lines\<close> to the console.
\<close>

fun order_loop ::
  "'n::{plus,times} catalog \<Rightarrow> 'n request_item list \<Rightarrow> 'n \<Rightarrow> 'n item list
     \<Rightarrow> (string list \<times> string) + ('n \<times> 'n item list)" where
  "order_loop lookup [] amount_acc orderItems = Inr (amount_acc, orderItems)"
| "order_loop lookup (it # rest) amount_acc orderItems =
     (case lookup (req_productId it) of
        Inl msg \<Rightarrow>
          Inl ([''Product fetch error: '' @ msg], ''Invalid product: '' @ req_productId it)
      | Inr p \<Rightarrow>
          if \<not> available p then Inl ([], product_name p @ '' is not available'')
          else order_loop lookup rest (amount_acc + product_price p * req_quantity it)
                 (orderItems @ [\<lparr>productId = product_id p, name = product_name p,
                           quantity = req_quantity it, price = product_price p\<rparr>]))"

text \<open>
  The validators \<^verbatim>\<open>OrderSchema\<close> declares: \<^verbatim>\<open>userId\<close> is required (a non-empty string),
  \<^verbatim>\<open>status\<close> and \<^verbatim>\<open>paymentStatus\<close> are enums.
\<close>

definition status_values :: "string list" where
  "status_values =
     [''pending'', ''confirmed'', ''preparing'', ''ready'', ''completed'', ''cancelled'']"

definition paymentStatus_values :: "string list" where
  "paymentStatus_values = [''pending'', ''completed'', ''failed'', ''refunded'']"

definition order_validation_errors :: "'n order \<Rightarrow> string list" where
  "order_validation_errors order =
     (if userId order = [] then [required_error ''userId''] else []) @
     (if status order \<notin> set status_values then [enum_error ''status'' (status order)]
      else []) @
     (if paymentStatus order \<notin> set paymentStatus_values
      then [enum_error ''paymentStatus'' (paymentStatus order)] else [])"

definition order_valid :: "'n order \<Rightarrow> bool" where
  "order_valid order = (order_validation_errors order = [])"

text \<open>The validation run by \<^verbatim>\<open>order.save()\<close>: \<open>Some\<close> of the message of the error thrown.\<close>

definition validate_order :: "'n order \<Rightarrow> string option" where
  "validate_order order =
     (if order_valid order then None
      else Some (''Order validation failed: '' @ join_errors (order_validation_errors order)))"

text \<open>The insertion done by \<^verbatim>\<open>await order.save()\<close> of a new, valid document.\<close>

definition insert_order :: "'n order \<Rightarrow> 'n order_service \<Rightarrow> string + 'n order_service" where
  "insert_order order s =
     (if order_id order \<in> dom (orders s) then Inl duplicate_key_message
      else Inr (s\<lparr>orders := (orders s)(order_id order \<mapsto> order)\<rparr>))"

text \<open>\<^verbatim>\<open>POST /api/orders\<close>.\<close>

definition create_order ::
  "'n::{zero,plus,times} catalog \<Rightarrow> string \<Rightarrow> nat \<Rightarrow> string option \<Rightarrow> 'n order_request
     \<Rightarrow> 'n order_service \<Rightarrow> 'n order_reply" where
  "create_order lookup newId now trigger_outcome req s =
     (case order_loop lookup (req_items req) 0 [] of
        Inl (lines, msg) \<Rightarrow> (Inl (Http400 msg), s\<lparr>console := console s @ lines\<rparr>)
      | Inr (amount_acc, orderItems) \<Rightarrow>
          let order = \<lparr>order_id = newId, userId = req_userId req, items = orderItems,
                       totalAmount = amount_acc, status = ''pending'',
                       paymentStatus = ''pending'',
                       deliveryAddress = req_deliveryAddress req,
                       specialInstructions = req_specialInstructions req,
                       createdAt = now, updatedAt = now\<rparr>
          in (case validate_order order of
                Some msg \<Rightarrow>
                  (Inl (Http400 msg),
                   s\<lparr>console := console s @ [''Create order error: '' @ msg]\<rparr>)
              | None \<Rightarrow>
                  (case insert_order order s of
                     Inl msg \<Rightarrow>
                       (Inl (Http400 msg),
                        s\<lparr>console := console s @ [''Create order error: '' @ msg]\<rparr>)
                   | Inr s1 \<Rightarrow>
                       (Inr order,
                        fire_and_forget
                          (PaymentTrigger (order_id order) amount_acc (req_userId req))
                          ''Payment service error:'' trigger_outcome s1))))"

text \<open>\<^verbatim>\<open>PATCH /api/orders/:id/status\<close>.\<close>

definition update_status ::
  "string \<Rightarrow> string \<Rightarrow> nat \<Rightarrow> string option \<Rightarrow> 'n order_service \<Rightarrow> 'n order_reply" where
  "update_status oid new_status now notify_outcome s =
     (case orders s oid of
        None \<Rightarrow> (Inl (Http404 ''Order not found''), s)
      | Some found \<Rightarrow>
          let order = found\<lparr>status := new_status, updatedAt := now\<rparr>;
              s1 = s\<lparr>orders := (orders s)(oid \<mapsto> order)\<rparr>
          in (Inr order,
              fire_and_forget
                (Notify (order.userId order)
                   (''Your order #'' @ slice_last6 (order_id order) @ '' is now '' @ new_status)
                   ''order_update'' (order_id order))
                ''Notification service error:'' notify_outcome s1))"

text \<open>\<^verbatim>\<open>PATCH /api/orders/:id/payment\<close>, the payment-status callback.\<close>

definition update_payment ::
  "string \<Rightarrow> string \<Rightarrow> nat \<Rightarrow> string option \<Rightarrow> 'n order_service \<Rightarrow> 'n order_reply" where
  "update_payment oid new_paymentStatus now notify_outcome s =
     (case orders s oid of
        None \<Rightarrow> (Inl (Http404 ''Order not found''), s)
      | Some found \<Rightarrow>
          let order = found\<lparr>paymentStatus := new_paymentStatus, updatedAt := now\<rparr>;
              s1 = s\<lparr>orders := (orders s)(oid \<mapsto> order)\<rparr>
          in if new_paymentStatus = ''completed'' \<and> status order = ''pending'' then
               let order' = order\<lparr>status := ''confirmed''\<rparr>;
                   s2 = s1\<lparr>orders := (orders s1)(oid \<mapsto> order')\<rparr>
               in (Inr order',
                   fire_and_forget
                     (Notify (order.userId order')
                        (''Payment confirmed for order #'' @ slice_last6 (order_id order'))
                        ''payment_success'' (order_id order'))
                     ''Notification service error:'' notify_outcome s2)
             else (Inr order, s1))"

text \<open>
  \<^verbatim>\<open>POST /api/orders/:id/cancel\<close>. The order is read, changed in memory and saved; the save
  validates the whole document, so a stored value outside an enum (the callback and the
  status update store any value) makes it throw, and the handler's \<^verbatim>\<open>catch\<close> answers 400
  with nothing written.
\<close>

definition cancel_order :: "string \<Rightarrow> nat \<Rightarrow> 'n order_service \<Rightarrow> 'n order_reply" where
  "cancel_order oid now s =
     (case orders s oid of
        None \<Rightarrow> (Inl (Http404 ''Order not found''), s)
      | Some order \<Rightarrow>
          if status order \<in> set [''preparing'', ''ready'', ''completed''] then
            (Inl (Http400 ''Cannot cancel order in current status''), s)
          else
            let order' = order\<lparr>status := ''cancelled'', updatedAt := now\<rparr>
            in (case validate_order order' of
                  Some msg \<Rightarrow> (Inl (Http400 msg), s)
                | None \<Rightarrow> (Inr order', s\<lparr>orders := (orders s)(oid \<mapsto> order')\<rparr>)))"

text \<open>
  A run of the order service: the requests it serves, in order. Every create request
  carries the catalog as it answers at that moment, so a run may change prices and
  availability between any two requests.
\<close>

datatype 'n order_event =
    Create "'n catalog" string nat "string option" "'n order_request"
  | UpdateStatus string string nat "string option"
  | UpdatePayment string string nat "string option"
  | Cancel string nat

fun order_step :: "'n::{zero,plus,times} order_event \<Rightarrow> 'n order_service \<Rightarrow> 'n order_service" where
  "order_step (Create lookup newId now outcome req) s =
     snd (create_order lookup newId now outcome req s)"
| "order_step (UpdateStatus oid new_status now outcome) s =
     snd (update_status oid new_status now outcome s)"
| "order_step (UpdatePayment oid new_paymentStatus now outcome) s =
     snd (update_payment oid new_paymentStatus now outcome s)"
| "order_step (Cancel oid now) s = snd (cancel_order oid now s)"

fun order_run :: "'n::{zero,plus,times} order_event list \<Rightarrow> 'n order_service \<Rightarrow> 'n order_service" where
  "order_run [] s = s"
| "order_run (e # es) s = order_run es (order_step e s)"

text \<open>
  The sum over line items of price times quantity, accumulated from \<open>0\<close> in item order
  (the order in which \<^verbatim>\<open>totalAmount += product.price * item.quantity\<close> adds them).
\<close>

definition line_items_sum :: "'n::{zero,plus,times} item list \<Rightarrow> 'n" where
  "line_items_sum its = foldl (\<lambda>acc it. acc + price it * quantity it) 0 its"

text \<open>A line item the create handler rejects: the lookup fails or the product is unavailable.\<close>

definition offending :: "'n catalog \<Rightarrow> 'n request_item \<Rightarrow> bool" where
  "offending lookup it =
     (case lookup (req_productId it) of Inl msg \<Rightarrow> True | Inr p \<Rightarrow> \<not> available p)"

text \<open>The text of the 400 reply for a rejected line item: it names the product.\<close>

definition rejection_message :: "'n catalog \<Rightarrow> 'n request_item \<Rightarrow> string" where
  "rejection_message lookup it =
     (case lookup (req_productId it) of
        Inl msg \<Rightarrow> ''Invalid product: '' @ req_productId it
      | Inr p \<Rightarrow> product_name p @ '' is not available'')"

text \<open>The unit price the catalog quotes for a requested line, when the lookup succeeds.\<close>

definition catalog_price :: "'n catalog \<Rightarrow> 'n request_item \<Rightarrow> 'n option" where
  "catalog_price lookup it =
     (case lookup (req_productId it) of Inl msg \<Rightarrow> None | Inr p \<Rightarrow> Some (product_price p))"

text \<open>
  The transitions of \<^verbatim>\<open>paymentStatus\<close> listed in section 4.4 of the specification,
  as pairs (from, to).
\<close>

definition listed_payment_edge :: "string \<Rightarrow> string \<Rightarrow> bool" where
  "listed_payment_edge a b =
     ((a, b) \<in> set [(''pending'', ''completed''), (''pending'', ''failed''),
                     (''completed'', ''refunded'')])"

subsection \<open>A small shop used for concrete runs\<close>

text \<open>Prices in cents, so that the numbers are integers.\<close>

definition menu :: "int catalog" where
  "menu pid =
     (if pid = ''latte'' then
        Inr \<lparr>product_id = ''latte'', product_name = ''Latte'', product_price = 299,
             available = True\<rparr>
      else if pid = ''mocha'' then
        Inr \<lparr>product_id = ''mocha'', product_name = ''Mocha'', product_price = 449,
             available = True\<rparr>
      else if pid = ''scone'' then
        Inr \<lparr>product_id = ''scone'', product_name = ''Scone'', product_price = 250,
             available = False\<rparr>
      else Inl ''Request failed with status code 404'')"

text \<open>The same menu after the price of a latte has been raised.\<close>

definition menu_repriced :: "int catalog" where
  "menu_repriced pid =
     (if pid = ''latte'' then
        Inr \<lparr>product_id = ''latte'', product_name = ''Latte'', product_price = 350,
             available = True\<rparr>
      else menu pid)"

definition basket :: "int order_request" where
  "basket =
     \<lparr>req_userId = ''ann'',
      req_items = [\<lparr>req_productId = ''latte'', req_quantity = 2\<rparr>,
                   \<lparr>req_productId = ''mocha'', req_quantity = 1\<rparr>],
      req_deliveryAddress = Some ''1 Bean Street'', req_specialInstructions = None\<rparr>"

definition basket_with_scone :: "int order_request" where
  "basket_with_scone =
     basket\<lparr>req_items := req_items basket @ [\<lparr>req_productId = ''scone'', req_quantity = 1\<rparr>]\<rparr>"

definition ticket :: "string \<Rightarrow> string \<Rightarrow> int order" where
  "ticket st pst =
     \<lparr>order_id = ''65a1f0c2e4b0a1b2c3d4e5f6'', userId = ''ann'',
      items = [\<lparr>productId = ''latte'', name = ''Latte'', quantity = 2, price = 299\<rparr>,
               \<lparr>productId = ''mocha'', name = ''Mocha'', quantity = 1, price = 449\<rparr>],
      totalAmount = 1047, status = st, paymentStatus = pst,
      deliveryAddress = Some ''1 Bean Street'', specialInstructions = None,
      createdAt = 100, updatedAt = 100\<rparr>"

definition closed_shop :: "int order_service" where
  "closed_shop = \<lparr>orders = Map.empty, outbox = [], console = []\<rparr>"

definition shop :: "string \<Rightarrow> string \<Rightarrow> int order_service" where
  "shop st pst =
     \<lparr>orders = [''65a1f0c2e4b0a1b2c3d4e5f6'' \<mapsto> ticket st pst], outbox = [], console = []\<rparr>"

section \<open>Payment service: data\<close>

text \<open>\<^verbatim>\<open>PaymentSchema\<close>; \<open>payment_id\<close> is the document's \<^verbatim>\<open>_id\<close>.\<close>

record 'n payment =
  payment_id :: string
  orderId :: string
  userId :: string
  amount :: 'n
  status :: string
  paymentMethod :: string
  transactionId :: "string option"
  failureReason :: "string option"
  createdAt :: nat
  completedAt :: "nat option"

text \<open>The body of \<^verbatim>\<open>POST /api/payments\<close>; \<^verbatim>\<open>paymentMethod\<close> may be absent.\<close>

record 'n payment_request =
  req_orderId :: string
  req_amount :: 'n
  req_payer :: string
  req_paymentMethod :: "string option"

text \<open>
  The state of the payment service: the \<^verbatim>\<open>payments\<close> collection, the ids of the payments
  whose \<^verbatim>\<open>setTimeout\<close> resolution is scheduled and has not run yet, the callbacks sent to
  \<^verbatim>\<open>PATCH /api/orders/:orderId/payment\<close> as pairs (orderId, paymentStatus), oldest first,
  and the console.
\<close>

record 'n payment_service =
  payments :: "string \<rightharpoonup> 'n payment"
  timers :: "string set"
  callbacks :: "(string \<times> string) list"
  pay_console :: "string list"

type_synonym 'n payment_reply = "(error + 'n payment) \<times> 'n payment_service"

section \<open>Payment service: handlers\<close>

text \<open>
  The validators \<^verbatim>\<open>PaymentSchema\<close> declares: \<^verbatim>\<open>orderId\<close> and \<^verbatim>\<open>userId\<close> are required
  (non-empty strings), \<^verbatim>\<open>status\<close> and \<^verbatim>\<open>paymentMethod\<close> are enums; \<^verbatim>\<open>amount\<close> is required
  and is present in every request of the model.
\<close>

definition payment_status_values :: "string list" where
  "payment_status_values = [''pending'', ''processing'', ''completed'', ''failed'', ''refunded'']"

definition paymentMethod_values :: "string list" where
  "paymentMethod_values = [''card'', ''cash'', ''upi'', ''wallet'']"

definition payment_validation_errors :: "'n payment \<Rightarrow> string list" where
  "payment_validation_errors payment =
     (if orderId payment = [] then [required_error ''orderId''] else []) @
     (if userId payment = [] then [required_error ''userId''] else []) @
     (if status payment \<notin> set payment_status_values
      then [enum_error ''status'' (status payment)] else []) @
     (if paymentMethod payment \<notin> set paymentMethod_values
      then [enum_error ''paymentMethod'' (paymentMethod payment)] else [])"

text \<open>The validation run by \<^verbatim>\<open>payment.save()\<close>: \<open>Some\<close> of the message of the error thrown.\<close>

definition validate_payment :: "'n payment \<Rightarrow> string option" where
  "validate_payment payment =
     (if payment_validation_errors payment = [] then None
      else Some (''Payment validation failed: '' @
                 join_errors (payment_validation_errors payment)))"

text \<open>
  \<^verbatim>\<open>POST /api/payments\<close>: stores the payment as \<^verbatim>\<open>processing\<close>, schedules its resolution
  and answers 201 with the document; a document that fails validation is answered 400 and
  neither stored nor scheduled.
\<close>

definition process_payment ::
  "string \<Rightarrow> nat \<Rightarrow> 'n payment_request \<Rightarrow> 'n payment_service \<Rightarrow> 'n payment_reply" where
  "process_payment newId now req s =
     (let payment = \<lparr>payment_id = newId, orderId = req_orderId req, userId = req_payer req,
                      amount = req_amount req, status = ''processing'',
                      paymentMethod = (case req_paymentMethod req of
                                         None \<Rightarrow> ''card'' | Some m \<Rightarrow> m),
                      transactionId = None, failureReason = None,
                      createdAt = now, completedAt = None\<rparr>
      in (case validate_payment payment of
            Some msg \<Rightarrow>
              (Inl (Http400 msg),
               s\<lparr>pay_console := pay_console s @ [''Payment creation error: '' @ msg]\<rparr>)
          | None \<Rightarrow>
              if newId \<in> dom (payments s) then
                (Inl (Http400 duplicate_key_message),
                 s\<lparr>pay_console := pay_console s @
                      [''Payment creation error: '' @ duplicate_key_message]\<rparr>)
              else
                (Inr payment,
                 s\<lparr>payments := (payments s)(newId \<mapsto> payment),
                   timers := insert newId (timers s)\<rparr>)))"

text \<open>
  The body of the \<^verbatim>\<open>setTimeout\<close> callback, run once for a scheduled payment.
  \<open>isSuccess\<close> is \<^verbatim>\<open>Math.random() > 0.05\<close>; \<open>stamp\<close> and \<open>rnd\<close> are the renderings of
  \<^verbatim>\<open>Date.now()\<close> and of \<^verbatim>\<open>Math.random().toString(36).substr(2, 9)\<close>; \<open>callback_outcome\<close>
  is the outcome of the awaited \<^verbatim>\<open>axios.patch\<close>.
\<close>

definition resolve_payment ::
  "string \<Rightarrow> bool \<Rightarrow> string \<Rightarrow> string \<Rightarrow> nat \<Rightarrow> string option \<Rightarrow> 'n payment_service
     \<Rightarrow> 'n payment_service" where
  "resolve_payment pid isSuccess stamp rnd now callback_outcome s =
     (if pid \<notin> timers s then s
      else case payments s pid of
        None \<Rightarrow> s\<lparr>timers := timers s - {pid}\<rparr>
      | Some found \<Rightarrow>
          let payment =
                (if isSuccess then
                   found\<lparr>status := ''completed'',
                         transactionId := Some (''TXN'' @ stamp @ rnd),
                         completedAt := Some now\<rparr>
                 else
                   found\<lparr>status := ''failed'',
                         failureReason := Some ''Insufficient funds''\<rparr>);
              s1 = s\<lparr>payments := (payments s)(pid \<mapsto> payment), timers := timers s - {pid}\<rparr>;
              s2 = s1\<lparr>callbacks := callbacks s1 @ [(orderId payment, status payment)]\<rparr>
          in (case callback_outcome of
                None \<Rightarrow> s2
              | Some msg \<Rightarrow>
                  s2\<lparr>pay_console := pay_console s2 @ [''Payment processing error: '' @ msg]\<rparr>))"

text \<open>
  \<^verbatim>\<open>POST /api/payments/:id/refund\<close>. The callback is awaited inside the handler's
  \<^verbatim>\<open>try\<close>: when it throws, the handler's \<^verbatim>\<open>catch\<close> answers 400 with the error's message.
\<close>

definition refund_payment ::
  "string \<Rightarrow> string option \<Rightarrow> 'n payment_service \<Rightarrow> 'n payment_reply" where
  "refund_payment pid callback_outcome s =
     (case payments s pid of
        None \<Rightarrow> (Inl (Http404 ''Payment not found''), s)
      | Some found \<Rightarrow>
          if status found \<noteq> ''completed'' then
            (Inl (Http400 ''Can only refund completed payments''), s)
          else
            let payment = found\<lparr>status := ''refunded''\<rparr>;
                s1 = s\<lparr>payments := (payments s)(pid \<mapsto> payment)\<rparr>;
                s2 = s1\<lparr>callbacks := callbacks s1 @ [(orderId payment, ''refunded'')]\<rparr>
            in (case callback_outcome of
                  None \<Rightarrow> (Inr payment, s2)
                | Some msg \<Rightarrow> (Inl (Http400 msg), s2)))"

text \<open>A run of the payment service from its empty start.\<close>

datatype 'n payment_event =
    Process string nat "'n payment_request"
  | Resolve string bool string string nat "string option"
  | Refund string "string option"

fun payment_step :: "'n payment_event \<Rightarrow> 'n payment_service \<Rightarrow> 'n payment_service" where
  "payment_step (Process newId now req) s = snd (process_payment newId now req s)"
| "payment_step (Resolve pid isSuccess stamp rnd now outcome) s =
     resolve_payment pid isSuccess stamp rnd now outcome s"
| "payment_step (Refund pid outcome) s = snd (refund_payment pid outcome s)"

fun payment_run :: "'n payment_event list \<Rightarrow> 'n payment_service \<Rightarrow> 'n payment_service" where
  "payment_run [] s = s"
| "payment_run (e # es) s = payment_run es (payment_step e s)"

definition payment_start :: "'n payment_service" where
  "payment_start = \<lparr>payments = Map.empty, timers = {}, callbacks = [], pay_console = []\<rparr>"

text \<open>
  What a stored payment looks like at any moment, given whether its resolution is still
  scheduled: the status is one of the four values the service writes, the resolution is
  scheduled exactly while the status is \<^verbatim>\<open>processing\<close>, and the optional fields are
  present exactly in the statuses that set them.
\<close>

definition payment_wellformed :: "bool \<Rightarrow> 'n payment \<Rightarrow> bool" where
  "payment_wellformed scheduled p =
     (status p \<in> set [''processing'', ''completed'', ''failed'', ''refunded'']
      \<and> (scheduled \<longleftrightarrow> status p = ''processing'')
      \<and> (transactionId p \<noteq> None \<longleftrightarrow> status p \<in> set [''completed'', ''refunded''])
      \<and> (failureReason p \<noteq> None \<longleftrightarrow> status p = ''failed'')
      \<and> (completedAt p \<noteq> None \<longleftrightarrow> status p \<in> set [''completed'', ''refunded'']))"

definition ledger_wellformed :: "'n payment_service \<Rightarrow> bool" where
  "ledger_wellformed s =
     (\<forall>pid p. payments s pid = Some p \<longrightarrow> payment_wellformed (pid \<in> timers s) p)"

subsection \<open>A small ledger used for concrete runs\<close>

definition charge :: "int payment_request" where
  "charge = \<lparr>req_orderId = ''65a1f0c2e4b0a1b2c3d4e5f6'', req_amount = 1047,
             req_payer = ''ann'', req_paymentMethod = None\<rparr>"

definition receipt :: "string \<Rightarrow> int payment" where
  "receipt st =
     \<lparr>payment_id = ''65b2c4d6e8f0a1b2c3d4e5a9'', orderId = ''65a1f0c2e4b0a1b2c3d4e5f6'', userId = ''ann'',
      amount = 1047, status = st, paymentMethod = ''card'',
      transactionId = Some ''TXN1700000000000k3j9x0q2a'', failureReason = None,
      createdAt = 100, completedAt = Some 2100\<rparr>"

definition ledger :: "string \<Rightarrow> int payment_service" where
  "ledger st =
     \<lparr>payments = [''65b2c4d6e8f0a1b2c3d4e5a9'' \<mapsto> receipt st], timers = {}, callbacks = [], pay_console = []\<rparr>"

section \<open>Order service: cancellation\<close>

text \<open>
  What the validation of a cancelled copy of an order depends on: the cancel handler
  writes a valid status, so the owner and \<^verbatim>\<open>paymentStatus\<close> decide.
\<close>

lemma valid_after_cancel:
  "order_valid (ord\<lparr>order.status := ''cancelled'', updatedAt := now\<rparr>)
     \<longleftrightarrow> order.userId ord \<noteq> [] \<and> paymentStatus ord \<in> set paymentStatus_values"
  by (simp add: order_valid_def order_validation_errors_def status_values_def)

lemma valid_pending_or_confirmed:
  "order.status ord \<in> {''pending'', ''confirmed'', ''cancelled''} \<Longrightarrow>
     order_valid ord \<longleftrightarrow> order.userId ord \<noteq> [] \<and> paymentStatus ord \<in> set paymentStatus_values"
  by (auto simp: order_valid_def order_validation_errors_def status_values_def)

text \<open>The cancel handler on an order that its status guard lets through.\<close>

lemma cancel_order_found:
  assumes "orders s oid = Some ord"
    and "order.status ord \<in> {''pending'', ''confirmed'', ''cancelled''}"
  shows "cancel_order oid now s =
      (if order_valid ord
       then (Inr (ord\<lparr>order.status := ''cancelled'', updatedAt := now\<rparr>),
             s\<lparr>orders := (orders s)(oid \<mapsto> ord\<lparr>order.status := ''cancelled'',
                                                      updatedAt := now\<rparr>)\<rparr>)
       else (Inl (Http400 (''Order validation failed: '' @
               join_errors (order_validation_errors
                 (ord\<lparr>order.status := ''cancelled'', updatedAt := now\<rparr>)))), s))"
proof -
  have "order_valid (ord\<lparr>order.status := ''cancelled'', updatedAt := now\<rparr>) = order_valid ord"
    using assms(2) valid_pending_or_confirmed [of ord] by (auto simp: valid_after_cancel)
  with assms show ?thesis
    by (auto simp: cancel_order_def validate_order_def Let_def)
qed

text \<open>
  C4, as stated, fails: it promises that cancelling succeeds for every existing order whose
  status is \<^verbatim>\<open>pending\<close> or \<^verbatim>\<open>confirmed\<close>. In the run below an order is created and a
  payment callback stores the value \<^verbatim>\<open>bogus\<close> in its \<^verbatim>\<open>paymentStatus\<close>. The order is still
  \<^verbatim>\<open>pending\<close>, yet cancelling it is answered with an error and the service state, so the
  order's status too, stays as it was: the save of the cancelled order fails validation.
\<close>

theorem cancel_pending_order_refused_counterexample:
  "map_option order.status
     (orders (order_run [Create menu ''65a1f0c2e4b0a1b2c3d4e5f6'' 100 None basket,
                         UpdatePayment ''65a1f0c2e4b0a1b2c3d4e5f6'' ''bogus'' 150 None]
                closed_shop) ''65a1f0c2e4b0a1b2c3d4e5f6'') = Some ''pending''
   \<and> isl (fst (cancel_order ''65a1f0c2e4b0a1b2c3d4e5f6'' 200
        (order_run [Create menu ''65a1f0c2e4b0a1b2c3d4e5f6'' 100 None basket,
                    UpdatePayment ''65a1f0c2e4b0a1b2c3d4e5f6'' ''bogus'' 150 None]
           closed_shop)))
   \<and> snd (cancel_order ''65a1f0c2e4b0a1b2c3d4e5f6'' 200
        (order_run [Create menu ''65a1f0c2e4b0a1b2c3d4e5f6'' 100 None basket,
                    UpdatePayment ''65a1f0c2e4b0a1b2c3d4e5f6'' ''bogus'' 150 None]
           closed_shop))
     = order_run [Create menu ''65a1f0c2e4b0a1b2c3d4e5f6'' 100 None basket,
                  UpdatePayment ''65a1f0c2e4b0a1b2c3d4e5f6'' ''bogus'' 150 None]
         closed_shop"
  by (simp add: create_order_def insert_order_def fire_and_forget_def menu_def basket_def
        closed_shop_def update_payment_def cancel_order_def validate_order_def order_valid_def
        order_validation_errors_def status_values_def paymentStatus_values_def Let_def)

text \<open>
  C4, amended. For an existing order, cancelling fails with the invalid-state error and
  leaves the whole service state (so the order's status too) unchanged when the current
  status is \<^verbatim>\<open>preparing\<close>, \<^verbatim>\<open>ready\<close> or \<^verbatim>\<open>completed\<close>. When it is \<^verbatim>\<open>pending\<close> or \<^verbatim>\<open>confirmed\<close>
  and the stored order passes the schema's validation (it has an owner and its
  \<^verbatim>\<open>paymentStatus\<close> is one of \<^verbatim>\<open>pending\<close>, \<^verbatim>\<open>completed\<close>, \<^verbatim>\<open>failed\<close>, \<^verbatim>\<open>refunded\<close>), the handler
  answers with the order, now stored with status \<^verbatim>\<open>cancelled\<close> and \<^verbatim>\<open>updatedAt\<close> set to the
  current time, every other field as before. When it is \<^verbatim>\<open>pending\<close> or \<^verbatim>\<open>confirmed\<close> and the
  stored order does not pass validation, the handler answers with an error and the state
  is unchanged.
\<close>

theorem cancel_order_guard_validated:
  assumes "orders s oid = Some ord"
    and "cancel_order oid now s = (reply, s')"
  shows "(order.status ord \<in> {''preparing'', ''ready'', ''completed''} \<longrightarrow>
            reply = Inl (Http400 ''Cannot cancel order in current status'') \<and> s' = s)
       \<and> (order.status ord \<in> {''pending'', ''confirmed''} \<and> order_valid ord \<longrightarrow>
            (\<exists>ord'. reply = Inr ord' \<and> orders s' oid = Some ord'
               \<and> order.status ord' = ''cancelled'' \<and> updatedAt ord' = now
               \<and> ord' = ord\<lparr>order.status := ''cancelled'', updatedAt := now\<rparr>))
       \<and> (order.status ord \<in> {''pending'', ''confirmed''} \<and> \<not> order_valid ord \<longrightarrow>
            isl reply \<and> s' = s)"
proof -
  have "order_valid (ord\<lparr>order.status := ''cancelled'', updatedAt := now\<rparr>) = order_valid ord"
    if "order.status ord \<in> {''pending'', ''confirmed''}"
    using that valid_pending_or_confirmed [of ord] by (auto simp: valid_after_cancel)
  with assms show ?thesis
    by (auto simp: cancel_order_def validate_order_def Let_def)
qed

theorem cancel_order_guard_validated_witness:
  "order_valid (ticket ''confirmed'' ''completed'')
   \<and> \<not> order_valid (ticket ''pending'' ''bogus'')
   \<and> snd (cancel_order ''65a1f0c2e4b0a1b2c3d4e5f6'' 200 (shop ''ready'' ''completed''))
     = shop ''ready'' ''completed''
   \<and> orders (snd (cancel_order ''65a1f0c2e4b0a1b2c3d4e5f6'' 200 (shop ''confirmed'' ''completed'')))
       ''65a1f0c2e4b0a1b2c3d4e5f6''
     = Some (ticket ''cancelled'' ''completed''\<lparr>updatedAt := 200\<rparr>)
   \<and> snd (cancel_order ''65a1f0c2e4b0a1b2c3d4e5f6'' 200 (shop ''pending'' ''bogus''))
     = shop ''pending'' ''bogus''"
proof -
  have ok: "order_valid (ticket ''confirmed'' ''completed'')"
    and bad: "\<not> order_valid (ticket ''pending'' ''bogus'')"
    by (simp_all add: order_valid_def order_validation_errors_def status_values_def
          paymentStatus_values_def ticket_def)
  from ok bad
    cancel_order_guard_validated [of "shop ''ready'' ''completed''"
      "''65a1f0c2e4b0a1b2c3d4e5f6''" "ticket ''ready'' ''completed''" 200
      "fst (cancel_order ''65a1f0c2e4b0a1b2c3d4e5f6'' 200 (shop ''ready'' ''completed''))"
      "snd (cancel_order ''65a1f0c2e4b0a1b2c3d4e5f6'' 200 (shop ''ready'' ''completed''))"]
    cancel_order_guard_validated [of "shop ''confirmed'' ''completed''"
      "''65a1f0c2e4b0a1b2c3d4e5f6''" "ticket ''confirmed'' ''completed''" 200
      "fst (cancel_order ''65a1f0c2e4b0a1b2c3d4e5f6'' 200 (shop ''confirmed'' ''completed''))"
      "snd (cancel_order ''65a1f0c2e4b0a1b2c3d4e5f6'' 200 (shop ''confirmed'' ''completed''))"]
    cancel_order_guard_validated [of "shop ''pending'' ''bogus''"
      "''65a1f0c2e4b0a1b2c3d4e5f6''" "ticket ''pending'' ''bogus''" 200
      "fst (cancel_order ''65a1f0c2e4b0a1b2c3d4e5f6'' 200 (shop ''pending'' ''bogus''))"
      "snd (cancel_order ''65a1f0c2e4b0a1b2c3d4e5f6'' 200 (shop ''pending'' ''bogus''))"]
  show ?thesis by (auto simp: shop_def ticket_def)
qed

text \<open>
  C10, as stated, fails: it promises that a cancelled order can always be cancelled again.
  In the run below an order is created and cancelled, and a payment callback then stores
  the value \<^verbatim>\<open>bogus\<close> in its \<^verbatim>\<open>paymentStatus\<close>. The order is \<^verbatim>\<open>cancelled\<close>, yet cancelling
  it again is answered with an error and nothing is written, so \<^verbatim>\<open>updatedAt\<close> is not
  refreshed.
\<close>

theorem cancel_again_refused_counterexample:
  "map_option order.status
     (orders (order_run [Create menu ''65a1f0c2e4b0a1b2c3d4e5f6'' 100 None basket,
                         Cancel ''65a1f0c2e4b0a1b2c3d4e5f6'' 120,
                         UpdatePayment ''65a1f0c2e4b0a1b2c3d4e5f6'' ''bogus'' 150 None]
                closed_shop) ''65a1f0c2e4b0a1b2c3d4e5f6'') = Some ''cancelled''
   \<and> isl (fst (cancel_order ''65a1f0c2e4b0a1b2c3d4e5f6'' 200
        (order_run [Create menu ''65a1f0c2e4b0a1b2c3d4e5f6'' 100 None basket,
                    Cancel ''65a1f0c2e4b0a1b2c3d4e5f6'' 120,
                    UpdatePayment ''65a1f0c2e4b0a1b2c3d4e5f6'' ''bogus'' 150 None]
           closed_shop)))
   \<and> map_option updatedAt
        (orders (snd (cancel_order ''65a1f0c2e4b0a1b2c3d4e5f6'' 200
           (order_run [Create menu ''65a1f0c2e4b0a1b2c3d4e5f6'' 100 None basket,
                       Cancel ''65a1f0c2e4b0a1b2c3d4e5f6'' 120,
                       UpdatePayment ''65a1f0c2e4b0a1b2c3d4e5f6'' ''bogus'' 150 None]
              closed_shop))) ''65a1f0c2e4b0a1b2c3d4e5f6'') = Some 150"
  by (simp add: create_order_def insert_order_def fire_and_forget_def menu_def basket_def
        closed_shop_def update_payment_def cancel_order_def validate_order_def order_valid_def
        order_validation_errors_def status_values_def paymentStatus_values_def Let_def)

text \<open>
  C10, amended. Cancelling an order that is already \<^verbatim>\<open>cancelled\<close> and whose stored document
  passes the schema's validation (it has an owner and its \<^verbatim>\<open>paymentStatus\<close> is one of
  \<^verbatim>\<open>pending\<close>, \<^verbatim>\<open>completed\<close>, \<^verbatim>\<open>failed\<close>, \<^verbatim>\<open>refunded\<close>) is not rejected: the handler answers with
  the order, whose status is still \<^verbatim>\<open>cancelled\<close> and whose \<^verbatim>\<open>updatedAt\<close> is refreshed, stores
  it, and a further cancel succeeds in the same way. A cancelled order that does not pass
  validation is answered with an error and the state is unchanged.
\<close>

theorem cancel_cancelled_order_repeatable_validated:
  assumes "orders s oid = Some ord"
    and "order.status ord = ''cancelled''"
    and "cancel_order oid now s = (reply, s')"
  shows "(order_valid ord \<longrightarrow>
            reply = Inr (ord\<lparr>updatedAt := now\<rparr>)
            \<and> orders s' oid = Some (ord\<lparr>updatedAt := now\<rparr>)
            \<and> order.status (ord\<lparr>updatedAt := now\<rparr>) = ''cancelled''
            \<and> fst (cancel_order oid later s') = Inr (ord\<lparr>updatedAt := later\<rparr>))
       \<and> (\<not> order_valid ord \<longrightarrow> isl reply \<and> s' = s)"
proof (cases "order_valid ord")
  case False
  with cancel_order_found [OF assms(1), of now] assms(2,3) show ?thesis by simp
next
  case True
  have same: "ord\<lparr>order.status := ''cancelled'', updatedAt := t\<rparr> = ord\<lparr>updatedAt := t\<rparr>" for t
    using assms(2) by simp
  let ?mid = "ord\<lparr>updatedAt := now\<rparr>"
  from cancel_order_found [OF assms(1), of now] assms(2,3) True
  have r: "reply = Inr ?mid" and s': "s' = s\<lparr>orders := (orders s)(oid \<mapsto> ?mid)\<rparr>"
    by (simp_all add: same)
  have mid: "orders s' oid = Some ?mid" "order.status ?mid = ''cancelled''"
    using s' assms(2) by simp_all
  have "order_valid ?mid"
    using True by (auto simp: order_valid_def order_validation_errors_def split: if_splits)
  with cancel_order_found [OF mid(1), of later] mid(2)
  have "fst (cancel_order oid later s') = Inr (?mid\<lparr>order.status := ''cancelled'', updatedAt := later\<rparr>)"
    by simp
  also have "?mid\<lparr>order.status := ''cancelled'', updatedAt := later\<rparr> = ord\<lparr>updatedAt := later\<rparr>"
    using assms(2) by simp
  finally show ?thesis using True r mid by simp
qed

theorem cancel_cancelled_order_repeatable_validated_witness:
  "order.status (ticket ''cancelled'' ''failed'') = ''cancelled''
   \<and> order_valid (ticket ''cancelled'' ''failed'')
   \<and> fst (cancel_order ''65a1f0c2e4b0a1b2c3d4e5f6'' 200 (shop ''cancelled'' ''failed''))
       = Inr (ticket ''cancelled'' ''failed''\<lparr>updatedAt := 200\<rparr>)
   \<and> \<not> order_valid (ticket ''cancelled'' ''bogus'')
   \<and> snd (cancel_order ''65a1f0c2e4b0a1b2c3d4e5f6'' 200 (shop ''cancelled'' ''bogus''))
       = shop ''cancelled'' ''bogus''"
proof -
  have ok: "order_valid (ticket ''cancelled'' ''failed'')"
    and bad: "\<not> order_valid (ticket ''cancelled'' ''bogus'')"
    by (simp_all add: order_valid_def order_validation_errors_def status_values_def
          paymentStatus_values_def ticket_def)
  from ok bad
    cancel_cancelled_order_repeatable_validated [of "shop ''cancelled'' ''failed''"
      "''65a1f0c2e4b0a1b2c3d4e5f6''" "ticket ''cancelled'' ''failed''" 200
      "fst (cancel_order ''65a1f0c2e4b0a1b2c3d4e5f6'' 200 (shop ''cancelled'' ''failed''))"
      "snd (cancel_order ''65a1f0c2e4b0a1b2c3d4e5f6'' 200 (shop ''cancelled'' ''failed''))" 300]
    cancel_cancelled_order_repeatable_validated [of "shop ''cancelled'' ''bogus''"
      "''65a1f0c2e4b0a1b2c3d4e5f6''" "ticket ''cancelled'' ''bogus''" 200
      "fst (cancel_order ''65a1f0c2e4b0a1b2c3d4e5f6'' 200 (shop ''cancelled'' ''bogus''))"
      "snd (cancel_order ''65a1f0c2e4b0a1b2c3d4e5f6'' 200 (shop ''cancelled'' ''bogus''))" 300]
  show ?thesis by (auto simp: shop_def ticket_def)
qed

section \<open>Order service: direct status update\<close>

text \<open>
  C9. For an existing order and any requested status value, the status handler stores the
  requested value whatever the current status is, sets \<^verbatim>\<open>updatedAt\<close> to the current time,
  leaves the other orders alone, and sends one notification to the order's owner whose
  text ends with the new status. The outcome of that notification request plays no part.
\<close>

theorem update_status_unconditional:
  assumes "orders s oid = Some ord"
    and "update_status oid new_status now outcome s = (reply, s')"
  shows "reply = Inr (ord\<lparr>order.status := new_status, updatedAt := now\<rparr>)
       \<and> orders s' oid = Some (ord\<lparr>order.status := new_status, updatedAt := now\<rparr>)
       \<and> (\<forall>other. other \<noteq> oid \<longrightarrow> orders s' other = orders s other)
       \<and> outbox s' = outbox s @
            [Notify (order.userId ord)
               (''Your order #'' @ slice_last6 (order_id ord) @ '' is now '' @ new_status)
               ''order_update'' (order_id ord)]"
  using assms by (auto simp: update_status_def Let_def fire_and_forget_def)

theorem update_status_unconditional_witness:
  "orders (snd (update_status ''65a1f0c2e4b0a1b2c3d4e5f6'' ''pending'' 200 None
                  (shop ''cancelled'' ''refunded''))) ''65a1f0c2e4b0a1b2c3d4e5f6''
     = Some (ticket ''pending'' ''refunded''\<lparr>updatedAt := 200\<rparr>)
   \<and> outbox (snd (update_status ''65a1f0c2e4b0a1b2c3d4e5f6'' ''pending'' 200 None
                  (shop ''cancelled'' ''refunded'')))
     = [Notify ''ann'' ''Your order #d4e5f6 is now pending'' ''order_update''
          ''65a1f0c2e4b0a1b2c3d4e5f6'']"
  using update_status_unconditional [of "shop ''cancelled'' ''refunded''"
      "''65a1f0c2e4b0a1b2c3d4e5f6''" "ticket ''cancelled'' ''refunded''" "''pending''" 200 None
      "fst (update_status ''65a1f0c2e4b0a1b2c3d4e5f6'' ''pending'' 200 None
              (shop ''cancelled'' ''refunded''))"
      "snd (update_status ''65a1f0c2e4b0a1b2c3d4e5f6'' ''pending'' 200 None
              (shop ''cancelled'' ''refunded''))"]
  by (simp add: shop_def ticket_def slice_last6_def)

section \<open>Order service: payment callback\<close>

text \<open>
  C1. For an existing order and any incoming payment status: when the incoming status is
  \<^verbatim>\<open>completed\<close> and the order's status is \<^verbatim>\<open>pending\<close>, the stored order gets
  paymentStatus \<^verbatim>\<open>completed\<close> and status \<^verbatim>\<open>confirmed\<close>, and one "Payment confirmed"
  notification is sent to the owner; in every other case the stored order differs from the
  old one in \<^verbatim>\<open>paymentStatus\<close> (the incoming value) and the \<^verbatim>\<open>updatedAt\<close> stamp only, its
  status is the old status, and nothing is sent. Other orders are untouched.
\<close>

theorem payment_callback_reconciles:
  assumes "orders s oid = Some ord"
    and "update_payment oid incoming now outcome s = (reply, s')"
  shows "(if incoming = ''completed'' \<and> order.status ord = ''pending'' then
            reply = Inr (ord\<lparr>paymentStatus := ''completed'', updatedAt := now,
                              order.status := ''confirmed''\<rparr>)
            \<and> outbox s' = outbox s @
                 [Notify (order.userId ord)
                    (''Payment confirmed for order #'' @ slice_last6 (order_id ord))
                    ''payment_success'' (order_id ord)]
          else
            reply = Inr (ord\<lparr>paymentStatus := incoming, updatedAt := now\<rparr>)
            \<and> outbox s' = outbox s)
       \<and> (\<exists>ord'. reply = Inr ord' \<and> orders s' oid = Some ord'
             \<and> paymentStatus ord' = incoming
             \<and> order.status ord' =
                 (if incoming = ''completed'' \<and> order.status ord = ''pending''
                  then ''confirmed'' else order.status ord))
       \<and> (\<forall>other. other \<noteq> oid \<longrightarrow> orders s' other = orders s other)"
  using assms by (auto simp: update_payment_def Let_def fire_and_forget_def)

theorem payment_callback_reconciles_witness:
  "orders (snd (update_payment ''65a1f0c2e4b0a1b2c3d4e5f6'' ''completed'' 200 None
                  (shop ''pending'' ''pending''))) ''65a1f0c2e4b0a1b2c3d4e5f6''
     = Some (ticket ''confirmed'' ''completed''\<lparr>updatedAt := 200\<rparr>)
   \<and> outbox (snd (update_payment ''65a1f0c2e4b0a1b2c3d4e5f6'' ''completed'' 200 None
                  (shop ''pending'' ''pending'')))
     = [Notify ''ann'' ''Payment confirmed for order #d4e5f6'' ''payment_success''
          ''65a1f0c2e4b0a1b2c3d4e5f6'']
   \<and> orders (snd (update_payment ''65a1f0c2e4b0a1b2c3d4e5f6'' ''completed'' 200 None
                  (shop ''preparing'' ''pending''))) ''65a1f0c2e4b0a1b2c3d4e5f6''
     = Some (ticket ''preparing'' ''completed''\<lparr>updatedAt := 200\<rparr>)
   \<and> outbox (snd (update_payment ''65a1f0c2e4b0a1b2c3d4e5f6'' ''completed'' 200 None
                  (shop ''preparing'' ''pending'')))
     = []"
  using payment_callback_reconciles [of "shop ''pending'' ''pending''"
      "''65a1f0c2e4b0a1b2c3d4e5f6''" "ticket ''pending'' ''pending''" "''completed''" 200 None
      "fst (update_payment ''65a1f0c2e4b0a1b2c3d4e5f6'' ''completed'' 200 None
              (shop ''pending'' ''pending''))"
      "snd (update_payment ''65a1f0c2e4b0a1b2c3d4e5f6'' ''completed'' 200 None
              (shop ''pending'' ''pending''))"]
    payment_callback_reconciles [of "shop ''preparing'' ''pending''"
      "''65a1f0c2e4b0a1b2c3d4e5f6''" "ticket ''preparing'' ''pending''" "''completed''" 200 None
      "fst (update_payment ''65a1f0c2e4b0a1b2c3d4e5f6'' ''completed'' 200 None
              (shop ''preparing'' ''pending''))"
      "snd (update_payment ''65a1f0c2e4b0a1b2c3d4e5f6'' ''completed'' 200 None
              (shop ''preparing'' ''pending''))"]
  by (auto simp: shop_def ticket_def slice_last6_def)

section \<open>Order service: creating an order\<close>

text \<open>
  The validation loop returns early at the first line item it rejects, with the message
  for that item; when it runs to the end, the amount it has accumulated is the sum over the
  lines it has collected, and every collected line carries the quantity asked for and the
  price the catalog quoted.
\<close>

lemma order_loop_rejects:
  "find (offending lookup) its = Some bad \<Longrightarrow>
     \<exists>lines. order_loop lookup its t acc = Inl (lines, rejection_message lookup bad)"
  by (induction its arbitrary: t acc)
     (auto simp: offending_def rejection_message_def split: sum.splits if_splits)

lemma order_loop_total:
  "t = foldl f z acc \<Longrightarrow> f = (\<lambda>a it. a + price it * quantity it) \<Longrightarrow>
   order_loop lookup its t acc = Inr (t', acc') \<Longrightarrow> t' = foldl f z acc'"
proof (induction its arbitrary: t acc)
  case Nil
  then show ?case by auto
next
  case (Cons it rest)
  from Cons.prems(3) obtain p where p: "lookup (req_productId it) = Inr p" "available p"
    by (auto split: sum.splits if_splits)
  let ?line = "\<lparr>productId = product_id p, name = product_name p,
                 quantity = req_quantity it, price = product_price p\<rparr>"
  have run: "order_loop lookup rest (t + product_price p * req_quantity it) (acc @ [?line])
               = Inr (t', acc')"
    using Cons.prems(3) p by simp
  have "t + product_price p * req_quantity it = foldl f z (acc @ [?line])"
    using Cons.prems(1,2) by simp
  from Cons.IH [OF this Cons.prems(2) run] show ?case .
qed

lemma order_loop_snapshot:
  "order_loop lookup its t acc = Inr (t', acc') \<Longrightarrow>
     map (\<lambda>l. Some (price l)) acc' = map (\<lambda>l. Some (price l)) acc @ map (catalog_price lookup) its
   \<and> map quantity acc' = map quantity acc @ map req_quantity its"
  by (induction its arbitrary: t acc)
     (auto simp: catalog_price_def split: sum.splits if_splits)

text \<open>A created order is stored under the generated id, with the loop's results.\<close>

lemma create_order_stored:
  "create_order lookup newId now outcome req s = (Inr ord, s') \<Longrightarrow>
     orders s' newId = Some ord \<and> order_id ord = newId
     \<and> (\<exists>t. order_loop lookup (req_items req) 0 [] = Inr (t, items ord) \<and> totalAmount ord = t)"
  by (auto simp: create_order_def insert_order_def fire_and_forget_def Let_def
        split: sum.splits prod.splits option.splits if_splits)

text \<open>
  No handler writes \<^verbatim>\<open>items\<close> or \<^verbatim>\<open>totalAmount\<close> of a stored order, only the payment
  callback writes \<^verbatim>\<open>paymentStatus\<close>, and creating another order never replaces a stored one.
\<close>

lemma create_order_keeps_stored:
  "orders s oid = Some ord \<Longrightarrow>
     orders (snd (create_order lookup newId now outcome req s)) oid = Some ord"
  by (auto simp: create_order_def insert_order_def fire_and_forget_def Let_def
        split: sum.splits prod.splits option.splits if_splits)

lemma create_order_starts_pending:
  "fst (create_order lookup newId now outcome req s) = Inr new \<Longrightarrow>
     paymentStatus new = ''pending'' \<and> order.status new = ''pending''"
  by (auto simp: create_order_def insert_order_def fire_and_forget_def Let_def
        split: sum.splits prod.splits option.splits if_splits)

lemma update_status_keeps_rest:
  "orders s oid = Some ord \<Longrightarrow>
     \<exists>ord'. orders (snd (update_status any new_status now outcome s)) oid = Some ord'
        \<and> totalAmount ord' = totalAmount ord \<and> items ord' = items ord
        \<and> paymentStatus ord' = paymentStatus ord"
  by (auto simp: update_status_def fire_and_forget_def Let_def split: option.splits)

lemma update_payment_keeps_lines:
  "orders s oid = Some ord \<Longrightarrow>
     \<exists>ord'. orders (snd (update_payment any incoming now outcome s)) oid = Some ord'
        \<and> totalAmount ord' = totalAmount ord \<and> items ord' = items ord"
  by (auto simp: update_payment_def fire_and_forget_def Let_def split: option.splits)

lemma update_payment_elsewhere:
  "orders s oid = Some ord \<Longrightarrow> other \<noteq> oid \<Longrightarrow>
     orders (snd (update_payment other incoming now outcome s)) oid = Some ord"
  by (auto simp: update_payment_def fire_and_forget_def Let_def split: option.splits)

lemma update_payment_stores_incoming:
  "orders s oid = Some ord \<Longrightarrow>
     \<exists>ord'. orders (snd (update_payment oid incoming now outcome s)) oid = Some ord'
        \<and> paymentStatus ord' = incoming"
  by (auto simp: update_payment_def fire_and_forget_def Let_def)

lemma cancel_order_keeps_rest:
  "orders s oid = Some ord \<Longrightarrow>
     \<exists>ord'. orders (snd (cancel_order any now s)) oid = Some ord'
        \<and> totalAmount ord' = totalAmount ord \<and> items ord' = items ord
        \<and> paymentStatus ord' = paymentStatus ord"
  by (auto simp: cancel_order_def Let_def split: option.splits)

lemma order_step_keeps_lines:
  "orders s oid = Some ord \<Longrightarrow>
     \<exists>ord'. orders (order_step e s) oid = Some ord'
        \<and> totalAmount ord' = totalAmount ord \<and> items ord' = items ord"
proof (cases e)
  case (Create lookup newId now outcome req)
  assume "orders s oid = Some ord"
  from create_order_keeps_stored [OF this] Create show ?thesis by simp
next
  case (UpdateStatus any new_status now outcome)
  assume "orders s oid = Some ord"
  from update_status_keeps_rest [OF this] UpdateStatus show ?thesis by fastforce
next
  case (UpdatePayment any incoming now outcome)
  assume "orders s oid = Some ord"
  from update_payment_keeps_lines [OF this] UpdatePayment show ?thesis by fastforce
next
  case (Cancel any now)
  assume "orders s oid = Some ord"
  from cancel_order_keeps_rest [OF this] Cancel show ?thesis by fastforce
qed

lemma order_run_keeps_lines:
  "orders s oid = Some ord \<Longrightarrow>
     \<exists>ord'. orders (order_run es s) oid = Some ord'
        \<and> totalAmount ord' = totalAmount ord \<and> items ord' = items ord"
proof (induction es arbitrary: s ord)
  case Nil
  then show ?case by simp
next
  case (Cons e es)
  from order_step_keeps_lines [OF Cons.prems, of e]
  obtain mid where mid: "orders (order_step e s) oid = Some mid"
    "totalAmount mid = totalAmount ord" "items mid = items ord" by blast
  from Cons.IH [OF mid(1)] mid(2,3) show ?case by simp
qed

text \<open>The two-item basket of the specification's end-to-end example, in cents.\<close>

lemma basket_created:
  "create_order menu ''65a1f0c2e4b0a1b2c3d4e5f6'' 100 None basket closed_shop
     = (Inr (ticket ''pending'' ''pending''),
        \<lparr>orders = [''65a1f0c2e4b0a1b2c3d4e5f6'' \<mapsto> ticket ''pending'' ''pending''],
         outbox = [PaymentTrigger ''65a1f0c2e4b0a1b2c3d4e5f6'' 1047 ''ann''], console = []\<rparr>)"
  by (simp add: create_order_def insert_order_def fire_and_forget_def menu_def basket_def
        closed_shop_def ticket_def validate_order_def order_valid_def
        order_validation_errors_def status_values_def paymentStatus_values_def Let_def)

text \<open>
  C2. When some line item of a create request is rejected by validation (its catalog lookup
  fails, or the product is not available), the reply is a 400 whose message names the
  product of the first such item (the requested id for a failed lookup, the product's
  name for an unavailable one), the collection of orders is unchanged and no request
  has been sent, in particular no payment trigger. This holds wherever the item stands in the
  list, so nothing is stored or sent before every item has passed.
\<close>

theorem create_order_rejects_offending_item:
  assumes "it \<in> set (req_items req)" and "offending lookup it"
    and "create_order lookup newId now outcome req s = (reply, s')"
  shows "\<exists>bad. find (offending lookup) (req_items req) = Some bad
           \<and> bad \<in> set (req_items req) \<and> offending lookup bad
           \<and> reply = Inl (Http400 (rejection_message lookup bad))
           \<and> orders s' = orders s \<and> outbox s' = outbox s"
proof -
  from assms(1,2) obtain bad where bad: "find (offending lookup) (req_items req) = Some bad"
    by (cases "find (offending lookup) (req_items req)") (auto simp: find_None_iff)
  then have mem: "bad \<in> set (req_items req)" "offending lookup bad"
    by (auto simp: find_Some_iff)
  from order_loop_rejects [OF bad] obtain lines where
    "order_loop lookup (req_items req) 0 [] = Inl (lines, rejection_message lookup bad)"
    by blast
  with assms(3) have "reply = Inl (Http400 (rejection_message lookup bad))"
    "orders s' = orders s" "outbox s' = outbox s"
    by (auto simp: create_order_def)
  with bad mem show ?thesis by blast
qed

theorem create_order_rejects_offending_item_witness:
  "offending menu \<lparr>req_productId = ''scone'', req_quantity = 1\<rparr>
   \<and> fst (create_order menu ''65a1f0c2e4b0a1b2c3d4e5f6'' 100 None basket_with_scone closed_shop)
       = Inl (Http400 ''Scone is not available'')
   \<and> orders (snd (create_order menu ''65a1f0c2e4b0a1b2c3d4e5f6'' 100 None basket_with_scone
                     closed_shop)) = Map.empty
   \<and> outbox (snd (create_order menu ''65a1f0c2e4b0a1b2c3d4e5f6'' 100 None basket_with_scone
                     closed_shop)) = []"
proof -
  have bad: "offending menu \<lparr>req_productId = ''scone'', req_quantity = 1\<rparr>"
    by (simp add: offending_def menu_def)
  have mem: "\<lparr>req_productId = ''scone'', req_quantity = 1\<rparr> \<in> set (req_items basket_with_scone)"
    by (simp add: basket_with_scone_def basket_def)
  have first: "find (offending menu) (req_items basket_with_scone)
                 = Some \<lparr>req_productId = ''scone'', req_quantity = 1\<rparr>"
    by (simp add: basket_with_scone_def basket_def offending_def menu_def)
  have msg: "rejection_message menu \<lparr>req_productId = ''scone'', req_quantity = 1\<rparr>
               = ''Scone is not available''"
    by (simp add: rejection_message_def menu_def)
  from create_order_rejects_offending_item [OF mem bad surjective_pairing] first msg bad
  show ?thesis by (auto simp: closed_shop_def)
qed

text \<open>
  C3. For a successfully created order, the stored \<^verbatim>\<open>totalAmount\<close> is the sum over its
  line items of price times quantity, where each line carries the quantity requested and
  the unit price the catalog quoted during validation; and after any further run of the
  service (status updates, payment callbacks, cancellations, and creations that see any
  other catalog) the order is still stored with the same line items and the same total.
\<close>

theorem total_is_sum_of_snapshots:
  assumes "create_order lookup newId now outcome req s = (Inr ord, s')"
  shows "totalAmount ord = line_items_sum (items ord)
       \<and> map (\<lambda>l. Some (price l)) (items ord) = map (catalog_price lookup) (req_items req)
       \<and> map quantity (items ord) = map req_quantity (req_items req)
       \<and> orders s' newId = Some ord
       \<and> (\<forall>es. \<exists>ord'. orders (order_run es s') newId = Some ord'
              \<and> totalAmount ord' = totalAmount ord \<and> items ord' = items ord
              \<and> totalAmount ord' = line_items_sum (items ord'))"
proof -
  from create_order_stored [OF assms] obtain t where
    stored: "orders s' newId = Some ord" and
    loop: "order_loop lookup (req_items req) 0 [] = Inr (t, items ord)" and
    t: "totalAmount ord = t" by blast
  have sum: "totalAmount ord = line_items_sum (items ord)"
    using order_loop_total [OF _ refl loop, of 0] t by (simp add: line_items_sum_def)
  have snap: "map (\<lambda>l. Some (price l)) (items ord) = map (catalog_price lookup) (req_items req)"
    "map quantity (items ord) = map req_quantity (req_items req)"
    using order_loop_snapshot [OF loop] by simp_all
  have later: "\<exists>ord'. orders (order_run es s') newId = Some ord'
              \<and> totalAmount ord' = totalAmount ord \<and> items ord' = items ord
              \<and> totalAmount ord' = line_items_sum (items ord')" for es
    using order_run_keeps_lines [OF stored, of es] sum by auto
  from sum snap stored later show ?thesis by blast
qed

theorem total_is_sum_of_snapshots_witness:
  "fst (create_order menu ''65a1f0c2e4b0a1b2c3d4e5f6'' 100 None basket closed_shop)
     = Inr (ticket ''pending'' ''pending'')
   \<and> totalAmount (ticket ''pending'' ''pending'') = 1047
   \<and> line_items_sum (items (ticket ''pending'' ''pending'')) = 1047
   \<and> (\<exists>ord'. orders
          (order_run [UpdatePayment ''65a1f0c2e4b0a1b2c3d4e5f6'' ''completed'' 150 None,
                      Create menu_repriced ''65a1f0c2e4b0a1b2c3d4e5f7'' 160 None basket,
                      UpdateStatus ''65a1f0c2e4b0a1b2c3d4e5f6'' ''preparing'' 170 None,
                      Cancel ''65a1f0c2e4b0a1b2c3d4e5f6'' 180]
             (snd (create_order menu ''65a1f0c2e4b0a1b2c3d4e5f6'' 100 None basket closed_shop)))
          ''65a1f0c2e4b0a1b2c3d4e5f6'' = Some ord' \<and> totalAmount ord' = 1047)"
proof -
  have created:
    "create_order menu ''65a1f0c2e4b0a1b2c3d4e5f6'' 100 None basket closed_shop
       = (Inr (ticket ''pending'' ''pending''),
          snd (create_order menu ''65a1f0c2e4b0a1b2c3d4e5f6'' 100 None basket closed_shop))"
    by (simp add: basket_created)
  have amount: "totalAmount (ticket ''pending'' ''pending'') = 1047"
    by (simp add: ticket_def)
  from total_is_sum_of_snapshots [OF created] amount created show ?thesis
    by (metis fst_conv)
qed

section \<open>Order service: who writes paymentStatus\<close>

text \<open>
  C7, as stated, fails: the payment callback stores the value it receives whatever the
  current value is. In the run below an order is created, its payment is reported
  \<^verbatim>\<open>completed\<close>, and a further callback carrying \<^verbatim>\<open>pending\<close> moves \<^verbatim>\<open>paymentStatus\<close> from
  \<^verbatim>\<open>completed\<close> back to \<^verbatim>\<open>pending\<close>, which is none of the listed transitions.
\<close>

theorem paymentStatus_edges_counterexample:
  "map_option paymentStatus
     (orders (order_run [Create menu ''65a1f0c2e4b0a1b2c3d4e5f6'' 100 None basket,
                         UpdatePayment ''65a1f0c2e4b0a1b2c3d4e5f6'' ''completed'' 150 None]
                closed_shop) ''65a1f0c2e4b0a1b2c3d4e5f6'') = Some ''completed''
   \<and> map_option paymentStatus
     (orders (order_run [Create menu ''65a1f0c2e4b0a1b2c3d4e5f6'' 100 None basket,
                         UpdatePayment ''65a1f0c2e4b0a1b2c3d4e5f6'' ''completed'' 150 None,
                         UpdatePayment ''65a1f0c2e4b0a1b2c3d4e5f6'' ''pending'' 200 None]
                closed_shop) ''65a1f0c2e4b0a1b2c3d4e5f6'') = Some ''pending''
   \<and> \<not> listed_payment_edge ''completed'' ''pending''"
  by (simp add: basket_created update_payment_def Let_def fire_and_forget_def ticket_def
        listed_payment_edge_def)

text \<open>
  C7, amended. A new order starts with \<^verbatim>\<open>paymentStatus\<close> \<^verbatim>\<open>pending\<close>. Of the handlers, only
  the payment callback for that order changes an order's \<^verbatim>\<open>paymentStatus\<close>, and it stores
  the incoming value from any current value; the status update, the cancellation, the
  creation of an order and a callback for another order leave it as it is.
\<close>

theorem paymentStatus_written_only_by_callback:
  assumes "orders s oid = Some ord"
  shows "(\<exists>ord'. orders (snd (update_payment oid incoming now outcome s)) oid = Some ord'
             \<and> paymentStatus ord' = incoming)
       \<and> (other \<noteq> oid \<longrightarrow>
             orders (snd (update_payment other incoming now outcome s)) oid = Some ord)
       \<and> (\<exists>ord'. orders (snd (update_status any new_status now outcome s)) oid = Some ord'
             \<and> paymentStatus ord' = paymentStatus ord)
       \<and> (\<exists>ord'. orders (snd (cancel_order any now s)) oid = Some ord'
             \<and> paymentStatus ord' = paymentStatus ord)
       \<and> orders (snd (create_order lookup newId now outcome req s)) oid = Some ord
       \<and> (\<forall>new. fst (create_order lookup newId now outcome req s) = Inr new \<longrightarrow>
             paymentStatus new = ''pending'')"
proof -
  note here = assms
  have a: "\<exists>ord'. orders (snd (update_payment oid incoming now outcome s)) oid = Some ord'
             \<and> paymentStatus ord' = incoming"
    by (rule update_payment_stores_incoming [OF here])
  have b: "other \<noteq> oid \<longrightarrow>
             orders (snd (update_payment other incoming now outcome s)) oid = Some ord"
    using update_payment_elsewhere [OF here] by blast
  have c: "\<exists>ord'. orders (snd (update_status any new_status now outcome s)) oid = Some ord'
             \<and> paymentStatus ord' = paymentStatus ord"
    using update_status_keeps_rest [OF here, of any new_status now outcome] by blast
  have d: "\<exists>ord'. orders (snd (cancel_order any now s)) oid = Some ord'
             \<and> paymentStatus ord' = paymentStatus ord"
    using cancel_order_keeps_rest [OF here, of any now] by blast
  have e: "orders (snd (create_order lookup newId now outcome req s)) oid = Some ord"
    by (rule create_order_keeps_stored [OF here])
  have f: "\<forall>new. fst (create_order lookup newId now outcome req s) = Inr new \<longrightarrow>
             paymentStatus new = ''pending''"
    using create_order_starts_pending by blast
  from a b c d e f show ?thesis by blast
qed

theorem paymentStatus_written_only_by_callback_witness:
  "orders (shop ''confirmed'' ''completed'') ''65a1f0c2e4b0a1b2c3d4e5f6''
     = Some (ticket ''confirmed'' ''completed'')
   \<and> (\<exists>ord'. orders (snd (update_payment ''65a1f0c2e4b0a1b2c3d4e5f6'' ''pending'' 200 None
                             (shop ''confirmed'' ''completed''))) ''65a1f0c2e4b0a1b2c3d4e5f6''
                = Some ord' \<and> paymentStatus ord' = ''pending'')
   \<and> (\<exists>ord'. orders (snd (cancel_order ''65a1f0c2e4b0a1b2c3d4e5f6'' 200
                             (shop ''confirmed'' ''completed''))) ''65a1f0c2e4b0a1b2c3d4e5f6''
                = Some ord' \<and> paymentStatus ord' = ''completed'')"
proof -
  have here: "orders (shop ''confirmed'' ''completed'') ''65a1f0c2e4b0a1b2c3d4e5f6''
                = Some (ticket ''confirmed'' ''completed'')"
    by (simp add: shop_def)
  have kept: "paymentStatus (ticket ''confirmed'' ''completed'') = ''completed''"
    by (simp add: ticket_def)
  from paymentStatus_written_only_by_callback [OF here, of "''pending''" 200 None
      "''65a1f0c2e4b0a1b2c3d4e5f7''" "''65a1f0c2e4b0a1b2c3d4e5f6''" "''ready''" menu
      "''65a1f0c2e4b0a1b2c3d4e5f7''" basket] here kept
  show ?thesis by simp
qed

section \<open>Payment service: resolution\<close>

text \<open>Every handler and the timer keep all stored payments well formed.\<close>

lemma process_payment_wellformed:
  "ledger_wellformed s \<Longrightarrow> ledger_wellformed (snd (process_payment newId now req s))"
  unfolding ledger_wellformed_def
  by (auto simp: process_payment_def Let_def payment_wellformed_def
        split: option.splits if_splits)

lemma resolve_payment_wellformed:
  "ledger_wellformed s \<Longrightarrow>
     ledger_wellformed (resolve_payment pid isSuccess stamp rnd now outcome s)"
  unfolding ledger_wellformed_def
  by (auto simp: resolve_payment_def Let_def payment_wellformed_def
        split: option.splits if_splits)

lemma refund_payment_wellformed:
  "ledger_wellformed s \<Longrightarrow> ledger_wellformed (snd (refund_payment pid outcome s))"
  unfolding ledger_wellformed_def
  by (auto simp: refund_payment_def Let_def payment_wellformed_def
        split: option.splits if_splits)

lemma payment_step_wellformed:
  "ledger_wellformed s \<Longrightarrow> ledger_wellformed (payment_step e s)"
  by (cases e)
     (simp_all add: process_payment_wellformed resolve_payment_wellformed
        refund_payment_wellformed)

lemma payment_run_wellformed:
  "ledger_wellformed s \<Longrightarrow> ledger_wellformed (payment_run es s)"
  by (induction es arbitrary: s) (simp_all add: payment_step_wellformed)

lemma payment_start_wellformed: "ledger_wellformed payment_start"
  by (simp add: ledger_wellformed_def payment_start_def)

text \<open>What the timer does to a payment whose resolution is scheduled.\<close>

lemma resolve_scheduled_payment:
  assumes "payments s pid = Some p" and "pid \<in> timers s"
  shows "payments (resolve_payment pid isSuccess stamp rnd now outcome s) pid =
           Some (if isSuccess then
                   p\<lparr>status := ''completed'', transactionId := Some (''TXN'' @ stamp @ rnd),
                     completedAt := Some now\<rparr>
                 else p\<lparr>status := ''failed'', failureReason := Some ''Insufficient funds''\<rparr>)
       \<and> pid \<notin> timers (resolve_payment pid isSuccess stamp rnd now outcome s)
       \<and> callbacks (resolve_payment pid isSuccess stamp rnd now outcome s) =
           callbacks s @ [(orderId p, if isSuccess then ''completed'' else ''failed'')]"
  using assms by (auto simp: resolve_payment_def Let_def split: option.splits)

text \<open>A charge for the basket above, and the same charge resolved and refunded.\<close>

lemma charge_processed:
  "payment_run [Process ''65b2c4d6e8f0a1b2c3d4e5a9'' 100 charge] payment_start
     = \<lparr>payments = [''65b2c4d6e8f0a1b2c3d4e5a9'' \<mapsto> receipt ''processing''
                        \<lparr>transactionId := None, completedAt := None\<rparr>],
        timers = {''65b2c4d6e8f0a1b2c3d4e5a9''}, callbacks = [], pay_console = []\<rparr>"
  by (simp add: process_payment_def payment_start_def charge_def receipt_def Let_def
        validate_payment_def payment_validation_errors_def payment_status_values_def
        paymentMethod_values_def)

lemma charge_refunded:
  "payment_run [Process ''65b2c4d6e8f0a1b2c3d4e5a9'' 100 charge,
                Resolve ''65b2c4d6e8f0a1b2c3d4e5a9'' True ''1700000000000'' ''k3j9x0q2a'' 2100 None,
                Refund ''65b2c4d6e8f0a1b2c3d4e5a9'' None] payment_start
     = \<lparr>payments = [''65b2c4d6e8f0a1b2c3d4e5a9'' \<mapsto> receipt ''refunded''], timers = {},
        callbacks = [(''65a1f0c2e4b0a1b2c3d4e5f6'', ''completed''),
                     (''65a1f0c2e4b0a1b2c3d4e5f6'', ''refunded'')],
        pay_console = []\<rparr>"
  by (simp add: process_payment_def resolve_payment_def refund_payment_def payment_start_def
        charge_def receipt_def Let_def validate_payment_def payment_validation_errors_def
        payment_status_values_def paymentMethod_values_def)

text \<open>
  C6. Every payment stored in any run of the payment service from its empty start is well
  formed: \<^verbatim>\<open>transactionId\<close> is present iff the status is \<^verbatim>\<open>completed\<close> or \<^verbatim>\<open>refunded\<close>,
  \<^verbatim>\<open>failureReason\<close> is present iff the status is \<^verbatim>\<open>failed\<close>, \<^verbatim>\<open>completedAt\<close> is set iff the
  status is \<^verbatim>\<open>completed\<close> or \<^verbatim>\<open>refunded\<close> (the statuses reached through a \<^verbatim>\<open>completed\<close>
  outcome), and the resolution is scheduled iff the status is \<^verbatim>\<open>processing\<close>. While the
  status is \<^verbatim>\<open>processing\<close> the timer's run stores exactly one of \<^verbatim>\<open>completed\<close> and \<^verbatim>\<open>failed\<close>,
  sets \<^verbatim>\<open>transactionId\<close> and \<^verbatim>\<open>completedAt\<close> iff the outcome is \<^verbatim>\<open>completed\<close> and
  \<^verbatim>\<open>failureReason\<close> iff it is \<^verbatim>\<open>failed\<close>, and unschedules itself; once the status is no
  longer \<^verbatim>\<open>processing\<close> no resolution runs again.
\<close>

theorem payment_resolves_once_and_consistently:
  assumes "payments (payment_run es payment_start) pid = Some p"
  shows "payment_wellformed (pid \<in> timers (payment_run es payment_start)) p
       \<and> (status p = ''processing'' \<longrightarrow>
            (\<exists>p'. payments (resolve_payment pid isSuccess stamp rnd now outcome
                              (payment_run es payment_start)) pid = Some p'
               \<and> status p' = (if isSuccess then ''completed'' else ''failed'')
               \<and> (transactionId p' \<noteq> None \<longleftrightarrow> isSuccess)
               \<and> (failureReason p' \<noteq> None \<longleftrightarrow> \<not> isSuccess)
               \<and> (completedAt p' \<noteq> None \<longleftrightarrow> isSuccess)
               \<and> payment_wellformed False p'
               \<and> pid \<notin> timers (resolve_payment pid isSuccess stamp rnd now outcome
                                   (payment_run es payment_start))))
       \<and> (status p \<noteq> ''processing'' \<longrightarrow>
            resolve_payment pid isSuccess stamp rnd now outcome (payment_run es payment_start)
              = payment_run es payment_start)"
proof -
  let ?s = "payment_run es payment_start"
  have inv: "ledger_wellformed ?s"
    by (rule payment_run_wellformed [OF payment_start_wellformed])
  then have wf: "payment_wellformed (pid \<in> timers ?s) p"
    using assms by (simp add: ledger_wellformed_def)
  have idle: "resolve_payment pid isSuccess stamp rnd now outcome ?s = ?s"
    if "status p \<noteq> ''processing''"
    using wf that by (simp add: payment_wellformed_def resolve_payment_def)
  have fires: "\<exists>p'. payments (resolve_payment pid isSuccess stamp rnd now outcome ?s) pid = Some p'
               \<and> status p' = (if isSuccess then ''completed'' else ''failed'')
               \<and> (transactionId p' \<noteq> None \<longleftrightarrow> isSuccess)
               \<and> (failureReason p' \<noteq> None \<longleftrightarrow> \<not> isSuccess)
               \<and> (completedAt p' \<noteq> None \<longleftrightarrow> isSuccess)
               \<and> payment_wellformed False p'
               \<and> pid \<notin> timers (resolve_payment pid isSuccess stamp rnd now outcome ?s)"
    if "status p = ''processing''"
  proof -
    from wf that have sched: "pid \<in> timers ?s" and
      blank: "transactionId p = None" "failureReason p = None" "completedAt p = None"
      by (auto simp: payment_wellformed_def)
    from resolve_scheduled_payment [OF assms sched, of isSuccess stamp rnd now outcome] blank
    show ?thesis by (auto simp: payment_wellformed_def)
  qed
  from wf idle fires show ?thesis by blast
qed

theorem payment_resolves_once_and_consistently_witness:
  "payments (payment_run [Process ''65b2c4d6e8f0a1b2c3d4e5a9'' 100 charge] payment_start) ''65b2c4d6e8f0a1b2c3d4e5a9''
     = Some (receipt ''processing''\<lparr>transactionId := None, completedAt := None\<rparr>)
   \<and> (\<exists>p'. payments (resolve_payment ''65b2c4d6e8f0a1b2c3d4e5a9'' False ''1700000000000'' ''k3j9x0q2a'' 2100 None
                        (payment_run [Process ''65b2c4d6e8f0a1b2c3d4e5a9'' 100 charge] payment_start)) ''65b2c4d6e8f0a1b2c3d4e5a9''
              = Some p'
         \<and> status p' = ''failed'' \<and> transactionId p' = None \<and> failureReason p' \<noteq> None
         \<and> completedAt p' = None)
   \<and> payment_wellformed False (receipt ''refunded'')"
proof -
  have one: "payments (payment_run [Process ''65b2c4d6e8f0a1b2c3d4e5a9'' 100 charge] payment_start) ''65b2c4d6e8f0a1b2c3d4e5a9''
     = Some (receipt ''processing''\<lparr>transactionId := None, completedAt := None\<rparr>)"
    by (simp only: charge_processed) simp
  have two: "payments (payment_run [Process ''65b2c4d6e8f0a1b2c3d4e5a9'' 100 charge,
                Resolve ''65b2c4d6e8f0a1b2c3d4e5a9'' True ''1700000000000'' ''k3j9x0q2a'' 2100 None,
                Refund ''65b2c4d6e8f0a1b2c3d4e5a9'' None] payment_start) ''65b2c4d6e8f0a1b2c3d4e5a9'' = Some (receipt ''refunded'')"
    by (simp only: charge_refunded) simp
  have st: "status (receipt ''processing''\<lparr>transactionId := None, completedAt := None\<rparr>
              :: int payment) = ''processing''"
    by (simp add: receipt_def)
  have idle: "''65b2c4d6e8f0a1b2c3d4e5a9'' \<notin> timers (payment_run [Process ''65b2c4d6e8f0a1b2c3d4e5a9'' 100 charge,
                Resolve ''65b2c4d6e8f0a1b2c3d4e5a9'' True ''1700000000000'' ''k3j9x0q2a'' 2100 None,
                Refund ''65b2c4d6e8f0a1b2c3d4e5a9'' None] payment_start :: int payment_service)"
    by (simp only: charge_refunded) simp
  from payment_resolves_once_and_consistently [OF one, of False "''1700000000000''"
      "''k3j9x0q2a''" 2100 None]
    payment_resolves_once_and_consistently [OF two] one st idle
  show ?thesis by auto
qed

section \<open>Payment service: refund\<close>

text \<open>
  The guard of the refund handler. A payment that is not \<^verbatim>\<open>completed\<close> is refused with the
  invalid-state error and nothing changes; a \<^verbatim>\<open>completed\<close> one is stored as \<^verbatim>\<open>refunded\<close>,
  the callback carrying \<^verbatim>\<open>refunded\<close> is sent, and a second refund is refused. The reply in
  the \<^verbatim>\<open>completed\<close> case depends on the outcome of the callback request.
\<close>

lemma refund_payment_guard:
  assumes "payments s pid = Some p"
    and "refund_payment pid outcome s = (reply, s')"
  shows "(status p \<noteq> ''completed'' \<longrightarrow>
            reply = Inl (Http400 ''Can only refund completed payments'') \<and> s' = s)
       \<and> (status p = ''completed'' \<longrightarrow>
            payments s' pid = Some (p\<lparr>status := ''refunded''\<rparr>)
            \<and> callbacks s' = callbacks s @ [(orderId p, ''refunded'')]
            \<and> pay_console s' = pay_console s
            \<and> reply = (case outcome of None \<Rightarrow> Inr (p\<lparr>status := ''refunded''\<rparr>)
                                      | Some msg \<Rightarrow> Inl (Http400 msg))
            \<and> fst (refund_payment pid again s')
                = Inl (Http400 ''Can only refund completed payments''))"
  using assms by (auto simp: refund_payment_def Let_def split: option.splits)

text \<open>
  C5 says that the refund of an existing payment succeeds if and only if its status is
  \<^verbatim>\<open>completed\<close>. The guard above agrees with it, but the reply does not: for the
  \<^verbatim>\<open>completed\<close> payment below, whose callback request is answered 404 by the order service,
  the handler stores the payment as \<^verbatim>\<open>refunded\<close>, sends the callback, and answers 400
  with the message of the failed request.
\<close>

theorem refund_of_completed_payment_answers_400:
  "status (receipt ''completed'') = ''completed''
   \<and> refund_payment ''65b2c4d6e8f0a1b2c3d4e5a9'' (Some ''Request failed with status code 404'') (ledger ''completed'')
     = (Inl (Http400 ''Request failed with status code 404''),
        \<lparr>payments = [''65b2c4d6e8f0a1b2c3d4e5a9'' \<mapsto> receipt ''refunded''], timers = {},
         callbacks = [(''65a1f0c2e4b0a1b2c3d4e5f6'', ''refunded'')], pay_console = []\<rparr>)"
  by (simp add: refund_payment_def ledger_def receipt_def Let_def)

section \<open>Failures of outgoing requests\<close>

text \<open>
  The requests of the order service (payment trigger, notifications) are sent and not
  awaited: their outcome changes neither the reply nor the stored orders nor what is sent,
  and a failure adds one line to the console.
\<close>

lemma create_order_ignores_trigger_outcome:
  "fst (create_order lookup newId now outcome req s) = fst (create_order lookup newId now None req s)
   \<and> orders (snd (create_order lookup newId now outcome req s))
       = orders (snd (create_order lookup newId now None req s))
   \<and> outbox (snd (create_order lookup newId now outcome req s))
       = outbox (snd (create_order lookup newId now None req s))"
  by (auto simp: create_order_def insert_order_def fire_and_forget_def Let_def
        split: sum.splits prod.splits option.splits)

lemma update_status_ignores_notify_outcome:
  "fst (update_status oid st now outcome s) = fst (update_status oid st now None s)
   \<and> orders (snd (update_status oid st now outcome s))
       = orders (snd (update_status oid st now None s))
   \<and> outbox (snd (update_status oid st now outcome s))
       = outbox (snd (update_status oid st now None s))"
  by (auto simp: update_status_def fire_and_forget_def Let_def split: option.splits)

lemma update_payment_ignores_notify_outcome:
  "fst (update_payment oid st now outcome s) = fst (update_payment oid st now None s)
   \<and> orders (snd (update_payment oid st now outcome s))
       = orders (snd (update_payment oid st now None s))
   \<and> outbox (snd (update_payment oid st now outcome s))
       = outbox (snd (update_payment oid st now None s))"
  by (auto simp: update_payment_def fire_and_forget_def Let_def split: option.splits)

lemma fire_and_forget_logs_failure:
  "console (fire_and_forget c label (Some msg) s) = console s @ [label @ '' '' @ msg]
   \<and> console (fire_and_forget c label None s) = console s"
  by (simp add: fire_and_forget_def)

text \<open>
  The callback sent by the timer is awaited inside the timer's own \<^verbatim>\<open>try\<close>: a failure is
  written to the console and the payment stays as resolved.
\<close>

lemma resolve_payment_swallows_callback_failure:
  "payments (resolve_payment pid isSuccess stamp rnd now (Some msg) s)
     = payments (resolve_payment pid isSuccess stamp rnd now None s)
   \<and> callbacks (resolve_payment pid isSuccess stamp rnd now (Some msg) s)
     = callbacks (resolve_payment pid isSuccess stamp rnd now None s)
   \<and> (pid \<in> timers s \<and> pid \<in> dom (payments s) \<longrightarrow>
        pay_console (resolve_payment pid isSuccess stamp rnd now (Some msg) s)
          = pay_console s @ [''Payment processing error: '' @ msg])"
  by (auto simp: resolve_payment_def Let_def split: option.splits)

text \<open>
  C8 says that a failure of any of these requests, the callback after a refund included, is
  logged and swallowed, and that the triggering operation still reports success. For the
  callback after a refund it is not so: when the order service cannot be reached, the
  refund handler answers 400 with the message of the failed request and writes nothing to
  the console, although the payment is already stored as \<^verbatim>\<open>refunded\<close>; with the callback
  answered, the same refund reports success.
\<close>

theorem refund_callback_failure_not_swallowed:
  "fst (refund_payment ''65b2c4d6e8f0a1b2c3d4e5a9'' (Some ''connect ECONNREFUSED 127.0.0.1:3003'')
          (ledger ''completed''))
     = Inl (Http400 ''connect ECONNREFUSED 127.0.0.1:3003'')
   \<and> pay_console (snd (refund_payment ''65b2c4d6e8f0a1b2c3d4e5a9'' (Some ''connect ECONNREFUSED 127.0.0.1:3003'')
                         (ledger ''completed''))) = []
   \<and> payments (snd (refund_payment ''65b2c4d6e8f0a1b2c3d4e5a9'' (Some ''connect ECONNREFUSED 127.0.0.1:3003'')
                      (ledger ''completed''))) ''65b2c4d6e8f0a1b2c3d4e5a9''
     = Some (receipt ''refunded'')
   \<and> fst (refund_payment ''65b2c4d6e8f0a1b2c3d4e5a9'' None (ledger ''completed'')) = Inr (receipt ''refunded'')"
  by (simp add: refund_payment_def ledger_def receipt_def Let_def)

end
